theory Spec2Isabelle
  imports Complex_Main "HOL-Library.Multiset"
begin

section \<open>Data model (prisma/schema.prisma)\<close>

text \<open>
  Timestamps (\<open>DateTime\<close>, JavaScript \<open>Date\<close>) are milliseconds since the epoch, an
  \<open>int\<close>. Row identifiers (\<open>@default(uuid())\<close>) are opaque; the store hands them out
  from a counter. The schema gives \<open>Lead.id\<close> the type \<open>String\<close> and
  \<open>convertToShipment\<close> declares its \<open>leadId\<close> a \<open>bigint\<close>, a value that the ORM
  refuses in \<open>lead.findUnique\<close> before any row is read. The model has one type of lead
  identifiers and looks a lead up by equality on it: it follows a call whose identifier
  has the type of the column, the only kind of call that reaches the checks and the
  transaction.
\<close>

type_synonym date = int
type_synonym uuid = nat

datatype TrackingStatus =
  PENDING | PICKED_UP | IN_TRANSIT | OUT_FOR_DELIVERY | DELIVERED | EXCEPTION | RETURNED

text \<open>The enum \<open>LeadStatus\<close>: \<open>new\<close>, \<open>contacted\<close>, \<open>qualified\<close>, \<open>converted\<close>, \<open>rejected\<close>.\<close>

datatype LeadStatus = Lead_new | Lead_contacted | Lead_qualified | Lead_converted | Lead_rejected

record Shipment =
  sid :: uuid
  trackingNumber :: string
  carrierTrackingNumber :: "string option"
  carrier :: "string option"
  status :: TrackingStatus
  estimatedDelivery :: "date option"
  actualDelivery :: "date option"
  createdAt :: date
  updatedAt :: date
  userId :: "string option"

record TrackingEvent =
  eid :: uuid
  ev_status :: TrackingStatus
  description :: string
  location :: "string option"
  timestamp :: date
  ev_createdAt :: date
  shipmentId :: uuid

text \<open>Of a lead, only the columns that \<open>convertToShipment\<close> reads or sets.\<close>

record Lead =
  lid :: int
  lead_status :: LeadStatus
  clientId :: "string option"

text \<open>
  The database: one list of rows per table, in insertion order, and the source of fresh
  row identifiers.
\<close>

record store =
  shipments :: "Shipment list"
  events :: "TrackingEvent list"
  leads :: "Lead list"
  nextId :: uuid

text \<open>
  Failures, named after the taxonomy of the specification. In the source they are
  \<open>Error('Failed to generate unique tracking number after multiple attempts')\<close>
  (\<open>AllocationExhausted\<close>), \<open>Error('Lead not found')\<close> and the ORM's "record to update
  not found" (\<open>NotFound\<close>), \<open>Error('Lead already converted')\<close> (\<open>InvalidTransition\<close>),
  and the ORM's rejections of a query: a required argument that is missing or an
  argument out of range (\<open>ValidationError\<close>), a duplicate of a unique column
  (\<open>UniqueConstraintViolation\<close>), a reference to a missing row
  (\<open>ForeignKeyViolation\<close>), a string longer than its \<open>VarChar\<close> column
  (\<open>ValueTooLong\<close>).
\<close>

datatype error =
  NotFound
  | AllocationExhausted
  | InvalidTransition
  | ValidationError string
  | UniqueConstraintViolation
  | ForeignKeyViolation
  | ValueTooLong

section \<open>Tracking number allocator\<close>

definition alphabet :: string where
  "alphabet = ''0123456789ABCDEFGHJKLMNPQRSTUVWXYZ''"

text \<open>
  Modelled from the spec: \<open>customAlphabet\<close> of the nanoid package, which is not part of
  the sources. Its output is "a string of the configured length drawn from the configured
  alphabet"; the random choice for each position is the argument \<open>rnd\<close>.
\<close>

definition customAlphabet :: "string \<Rightarrow> nat \<Rightarrow> (nat \<Rightarrow> nat) \<Rightarrow> string" where
  "customAlphabet abc len rnd = map (\<lambda>i. abc ! (rnd i mod length abc)) [0..<len]"

definition generateTrackingNumber :: "(nat \<Rightarrow> nat) \<Rightarrow> string" where
  "generateTrackingNumber = customAlphabet alphabet 12"

definition MAX_ATTEMPTS :: nat where
  "MAX_ATTEMPTS = 10"

text \<open>
  The \<open>do ... while (exists)\<close> loop of \<open>generateUniqueTrackingNumber\<close>. \<open>cand i\<close> is the
  candidate that the \<open>i\<close>-th call of the generator returns and \<open>found i\<close> the outcome of
  the \<open>i\<close>-th uniqueness query. The second component of the result is the final value of
  \<open>attempts\<close>, which counts the candidates generated.
\<close>

function generateUniqueTrackingNumber_loop ::
  "(nat \<Rightarrow> string) \<Rightarrow> (nat \<Rightarrow> bool) \<Rightarrow> nat \<Rightarrow> (error + string) \<times> nat" where
  "generateUniqueTrackingNumber_loop cand found attempts =
     (if attempts \<ge> MAX_ATTEMPTS then (Inl AllocationExhausted, attempts)
      else
        let trackingNumber = cand attempts;
            exists = found attempts;
            attempts' = attempts + 1
        in if exists then generateUniqueTrackingNumber_loop cand found attempts'
           else (Inr trackingNumber, attempts'))"
  by pat_completeness auto
termination
  by (relation "measure (\<lambda>(cand, found, attempts). MAX_ATTEMPTS - attempts)") auto

declare generateUniqueTrackingNumber_loop.simps [simp del]

text \<open>\<open>prisma.shipment.findUnique({ where: { trackingNumber } })\<close>.\<close>

definition findUnique :: "store \<Rightarrow> string \<Rightarrow> Shipment option" where
  "findUnique st tn = find (\<lambda>s. trackingNumber s = tn) (shipments st)"

text \<open>
  \<open>rnd i j\<close> is the random choice for position \<open>j\<close> of the \<open>i\<close>-th candidate.
\<close>

definition generateUniqueTrackingNumber :: "store \<Rightarrow> (nat \<Rightarrow> nat \<Rightarrow> nat) \<Rightarrow> error + string" where
  "generateUniqueTrackingNumber st rnd =
     fst (generateUniqueTrackingNumber_loop
            (\<lambda>i. generateTrackingNumber (rnd i))
            (\<lambda>i. findUnique st (generateTrackingNumber (rnd i)) \<noteq> None) 0)"

section \<open>The ORM client\<close>

text \<open>
  Every query returns either an error or its result together with the new database.
  \<open>$transaction\<close> runs its body on the database and commits the body's writes only when
  the body returns; when the body throws, the database is the one before the
  transaction. A single query outside a transaction is atomic in the same way.
\<close>

definition transaction :: "(store \<Rightarrow> error + 'a \<times> store) \<Rightarrow> store \<Rightarrow> (error + 'a) \<times> store" where
  "transaction body st =
     (case body st of Inl e \<Rightarrow> (Inl e, st) | Inr (v, st') \<Rightarrow> (Inr v, st'))"

text \<open>A value that does not fit a \<open>VarChar(n)\<close> column.\<close>

definition too_long :: "nat \<Rightarrow> string option \<Rightarrow> bool" where
  "too_long n v = (case v of None \<Rightarrow> False | Some x \<Rightarrow> length x > n)"

text \<open>
  The \<open>data\<close> argument of \<open>shipment.create\<close>: \<open>None\<close> is a key that is absent or
  \<open>undefined\<close>.
\<close>

record ShipmentCreateInput =
  c_trackingNumber :: "string option"
  c_carrier :: "string option"
  c_carrierTrackingNumber :: "string option"
  c_estimatedDelivery :: "date option"
  c_userId :: "string option"

text \<open>
  \<open>shipment.create\<close>. In the schema \<open>trackingNumber\<close> is \<open>String @unique\<close>, required
  and without a default (\<open>tracking_number TEXT NOT NULL\<close> in the migration), so a
  \<open>data\<close> without it is rejected; \<open>id\<close>, \<open>status\<close>, \<open>createdAt\<close> and \<open>updatedAt\<close>
  take their defaults; \<open>carrier\<close> is a \<open>VarChar(100)\<close>. The users table is not
  modelled.
\<close>

definition shipment_create ::
  "store \<Rightarrow> ShipmentCreateInput \<Rightarrow> date \<Rightarrow> error + Shipment \<times> store" where
  "shipment_create st d now =
     (case c_trackingNumber d of
        None \<Rightarrow> Inl (ValidationError ''Argument trackingNumber is missing'')
      | Some tn \<Rightarrow>
          if too_long 100 (c_carrier d) then Inl ValueTooLong
          else if findUnique st tn \<noteq> None then Inl UniqueConstraintViolation
          else
            let row = \<lparr>sid = nextId st, trackingNumber = tn,
                       carrierTrackingNumber = c_carrierTrackingNumber d,
                       carrier = c_carrier d, status = PENDING,
                       estimatedDelivery = c_estimatedDelivery d, actualDelivery = None,
                       createdAt = now, updatedAt = now, userId = c_userId d\<rparr>
            in Inr (row, st\<lparr>shipments := shipments st @ [row], nextId := Suc (nextId st)\<rparr>))"

fun update_first :: "('a \<Rightarrow> bool) \<Rightarrow> ('a \<Rightarrow> 'a) \<Rightarrow> 'a list \<Rightarrow> 'a list" where
  "update_first P f [] = []"
| "update_first P f (x # xs) = (if P x then f x # xs else x # update_first P f xs)"

text \<open>The \<open>data\<close> argument of \<open>shipment.update\<close>: an absent key leaves the column as it is.\<close>

record ShipmentUpdateInput =
  u_status :: "TrackingStatus option"
  u_actualDelivery :: "date option"

definition apply_update :: "ShipmentUpdateInput \<Rightarrow> date \<Rightarrow> Shipment \<Rightarrow> Shipment" where
  "apply_update d now s =
     s\<lparr>status := (case u_status d of None \<Rightarrow> status s | Some v \<Rightarrow> v),
       actualDelivery := (case u_actualDelivery d of None \<Rightarrow> actualDelivery s | Some t \<Rightarrow> Some t),
       updatedAt := now\<rparr>"

text \<open>\<open>shipment.update({ where: { trackingNumber }, data })\<close>: throws when no row matches.\<close>

definition shipment_update ::
  "store \<Rightarrow> string \<Rightarrow> ShipmentUpdateInput \<Rightarrow> date \<Rightarrow> error + Shipment \<times> store" where
  "shipment_update st tn d now =
     (case findUnique st tn of
        None \<Rightarrow> Inl NotFound
      | Some s \<Rightarrow>
          Inr (apply_update d now s,
               st\<lparr>shipments :=
                    update_first (\<lambda>r. trackingNumber r = tn) (apply_update d now) (shipments st)\<rparr>))"

record TrackingEventCreateInput =
  ce_shipmentId :: uuid
  ce_status :: TrackingStatus
  ce_description :: string
  ce_location :: "string option"
  ce_timestamp :: date

text \<open>
  \<open>trackingEvent.create\<close>: \<open>location\<close> is a \<open>VarChar(200)\<close>, and the event must
  reference an existing shipment.
\<close>

definition trackingEvent_create ::
  "store \<Rightarrow> TrackingEventCreateInput \<Rightarrow> date \<Rightarrow> error + TrackingEvent \<times> store" where
  "trackingEvent_create st d now =
     (if too_long 200 (ce_location d) then Inl ValueTooLong
      else if find (\<lambda>s. sid s = ce_shipmentId d) (shipments st) = None
      then Inl ForeignKeyViolation
      else
        let row = \<lparr>eid = nextId st, ev_status = ce_status d, description = ce_description d,
                   location = ce_location d, timestamp = ce_timestamp d, ev_createdAt = now,
                   shipmentId = ce_shipmentId d\<rparr>
        in Inr (row, st\<lparr>events := events st @ [row], nextId := Suc (nextId st)\<rparr>))"

definition lead_findUnique :: "store \<Rightarrow> int \<Rightarrow> Lead option" where
  "lead_findUnique st i = find (\<lambda>l. lid l = i) (leads st)"

text \<open>\<open>lead.update({ where: { id }, data: { status } })\<close>.\<close>

definition lead_update :: "store \<Rightarrow> int \<Rightarrow> LeadStatus \<Rightarrow> error + Lead \<times> store" where
  "lead_update st i v =
     (case lead_findUnique st i of
        None \<Rightarrow> Inl NotFound
      | Some l \<Rightarrow>
          Inr (l\<lparr>lead_status := v\<rparr>,
               st\<lparr>leads := update_first (\<lambda>r. lid r = i) (\<lambda>r. r\<lparr>lead_status := v\<rparr>) (leads st)\<rparr>))"

text \<open>
  \<open>include: { events: { orderBy: { timestamp: 'desc' } } }\<close>: the events of one shipment,
  latest timestamp first.
\<close>

definition eventsOf :: "store \<Rightarrow> uuid \<Rightarrow> TrackingEvent list" where
  "eventsOf st i = filter (\<lambda>e. shipmentId e = i) (events st)"

definition orderBy_timestamp_desc :: "TrackingEvent list \<Rightarrow> TrackingEvent list" where
  "orderBy_timestamp_desc = sort_key (\<lambda>e. - timestamp e)"

section \<open>TrackingService\<close>

record CreateShipmentData =
  d_userId :: "string option"
  d_carrier :: "string option"
  d_carrierTrackingNumber :: "string option"
  d_estimatedDelivery :: "date option"

definition createShipment ::
  "store \<Rightarrow> CreateShipmentData \<Rightarrow> (nat \<Rightarrow> nat \<Rightarrow> nat) \<Rightarrow> date \<Rightarrow> (error + Shipment) \<times> store" where
  "createShipment st data rnd now =
     (case generateUniqueTrackingNumber st rnd of
        Inl e \<Rightarrow> (Inl e, st)
      | Inr tn \<Rightarrow>
          transaction (\<lambda>tx. shipment_create tx
            \<lparr>c_trackingNumber = Some tn,
             c_carrier = d_carrier data,
             c_carrierTrackingNumber = d_carrierTrackingNumber data,
             c_estimatedDelivery = d_estimatedDelivery data,
             c_userId = d_userId data\<rparr> now) st)"


record StatusData =
  sd_description :: string
  sd_location :: "string option"
  sd_timestamp :: "date option"

text \<open>\<open>data.timestamp || new Date()\<close>; \<open>now\<close> is the clock at the call.\<close>

definition effective_timestamp :: "StatusData \<Rightarrow> date \<Rightarrow> date" where
  "effective_timestamp data now = (case sd_timestamp data of Some t \<Rightarrow> t | None \<Rightarrow> now)"

text \<open>
  The \<open>data\<close> of the update query:
  \<open>{ status, ...(status === 'DELIVERED' && { actualDelivery: timestamp }) }\<close>.
\<close>

definition statusUpdateData :: "TrackingStatus \<Rightarrow> StatusData \<Rightarrow> date \<Rightarrow> ShipmentUpdateInput" where
  "statusUpdateData st_new data now =
     \<lparr>u_status = Some st_new,
      u_actualDelivery =
        (if st_new = DELIVERED then Some (effective_timestamp data now) else None)\<rparr>"

definition updateShipmentStatus_tx ::
  "string \<Rightarrow> TrackingStatus \<Rightarrow> StatusData \<Rightarrow> date \<Rightarrow> store \<Rightarrow> error + Shipment \<times> store" where
  "updateShipmentStatus_tx tn st_new data now tx =
     (let ts = effective_timestamp data now in
      case shipment_update tx tn (statusUpdateData st_new data now) now of
        Inl e \<Rightarrow> Inl e
      | Inr (shipment, tx1) \<Rightarrow>
          (case trackingEvent_create tx1
                  \<lparr>ce_shipmentId = sid shipment, ce_status = st_new,
                   ce_description = sd_description data, ce_location = sd_location data,
                   ce_timestamp = ts\<rparr> now of
             Inl e \<Rightarrow> Inl e
           | Inr (ev, tx2) \<Rightarrow> Inr (shipment, tx2)))"

definition updateShipmentStatus ::
  "store \<Rightarrow> string \<Rightarrow> TrackingStatus \<Rightarrow> StatusData \<Rightarrow> date \<Rightarrow> (error + Shipment) \<times> store" where
  "updateShipmentStatus st tn st_new data now =
     transaction (updateShipmentStatus_tx tn st_new data now) st"

text \<open>
  A JavaScript number as far as \<open>Math.ceil(total / limit)\<close> can produce one from a row
  count and an integer \<open>limit\<close>: an integer, or what a division by zero gives.
\<close>

datatype jsnum = Num int | Infinity | NaN

definition ceil_div :: "nat \<Rightarrow> int \<Rightarrow> jsnum" where
  "ceil_div n l =
     (if l = 0 then (if n = 0 then NaN else Infinity)
      else Num (- ((- int n) div l)))"

record ListParams =
  p_userId :: "string option"
  p_status :: "TrackingStatus option"
  p_page :: "int option"
  p_limit :: "int option"

record Pagination =
  total :: nat
  page :: int
  limit :: int
  totalPages :: jsnum

record ListResult =
  r_shipments :: "(Shipment \<times> TrackingEvent list) list"
  pagination :: Pagination

text \<open>
  \<open>...(userId && { userId })\<close>: the filter is present only for a truthy \<open>userId\<close>, and
  the empty string is falsy. A \<open>TrackingStatus\<close> is a non-empty string, so a status that
  is given is always a filter.
\<close>

definition where_userId :: "string option \<Rightarrow> string option" where
  "where_userId u = (case u of None \<Rightarrow> None | Some v \<Rightarrow> if v = [] then None else Some v)"

definition matches :: "string option \<Rightarrow> TrackingStatus option \<Rightarrow> Shipment \<Rightarrow> bool" where
  "matches u s r =
     ((case u of None \<Rightarrow> True | Some v \<Rightarrow> userId r = Some v) \<and>
      (case s of None \<Rightarrow> True | Some v \<Rightarrow> status r = v))"

text \<open>
  \<open>skip\<close> and \<open>take\<close> of \<open>findMany\<close>: a negative \<open>skip\<close> is rejected, a negative
  \<open>take\<close> counts rows from the end of the ordering.
\<close>

definition skip_take :: "int \<Rightarrow> int \<Rightarrow> 'a list \<Rightarrow> error + 'a list" where
  "skip_take sk tk xs =
     (if sk < 0 then Inl (ValidationError ''Invalid value for skip argument'')
      else if tk \<ge> 0 then Inr (take (nat tk) (drop (nat sk) xs))
      else Inr (rev (take (nat (- tk)) (drop (nat sk) (rev xs)))))"

definition orderBy_createdAt_desc :: "Shipment list \<Rightarrow> Shipment list" where
  "orderBy_createdAt_desc = sort_key (\<lambda>s. - createdAt s)"

definition listShipments :: "store \<Rightarrow> ListParams \<Rightarrow> error + ListResult" where
  "listShipments st params =
     (let pg = (case p_page params of None \<Rightarrow> 1 | Some p \<Rightarrow> p);
          lm = (case p_limit params of None \<Rightarrow> 20 | Some l \<Rightarrow> l);
          matching = filter (matches (where_userId (p_userId params)) (p_status params))
                       (shipments st)
      in case skip_take ((pg - 1) * lm) lm (orderBy_createdAt_desc matching) of
           Inl e \<Rightarrow> Inl e
         | Inr rows \<Rightarrow>
             Inr \<lparr>r_shipments =
                    map (\<lambda>s. (s, take 1 (orderBy_timestamp_desc (eventsOf st (sid s))))) rows,
                  pagination =
                    \<lparr>total = length matching, page = pg, limit = lm,
                     totalPages = ceil_div (length matching) lm\<rparr>\<rparr>)"

section \<open>LeadService.convertToShipment\<close>

record ConvertData =
  cd_carrier :: "string option"
  cd_carrierTrackingNumber :: "string option"
  cd_estimatedDelivery :: "date option"

text \<open>
  The body of the \<open>$transaction\<close> call: \<open>shipment.create\<close> with
  \<open>{ ...shipmentData, userId: lead.clientId?.toString() }\<close>, then \<open>lead.update\<close>.
  \<open>lead\<close> is the row read before the transaction.
\<close>

definition convertToShipment_tx ::
  "Lead \<Rightarrow> int \<Rightarrow> ConvertData \<Rightarrow> date \<Rightarrow> store \<Rightarrow> error + Shipment \<times> store" where
  "convertToShipment_tx lead leadId shipmentData now tx =
     (case shipment_create tx
             \<lparr>c_trackingNumber = None,
              c_carrier = cd_carrier shipmentData,
              c_carrierTrackingNumber = cd_carrierTrackingNumber shipmentData,
              c_estimatedDelivery = cd_estimatedDelivery shipmentData,
              c_userId = clientId lead\<rparr> now of
        Inl e \<Rightarrow> Inl e
      | Inr (shipment, tx1) \<Rightarrow>
          (case lead_update tx1 leadId Lead_converted of
             Inl e \<Rightarrow> Inl e
           | Inr (l, tx2) \<Rightarrow> Inr (shipment, tx2)))"

text \<open>
  What \<open>convertToShipment\<close> does before it opens the transaction: \<open>lead.findUnique\<close>
  and the two checks on its result.
\<close>

definition convertToShipment_check :: "store \<Rightarrow> int \<Rightarrow> error + Lead" where
  "convertToShipment_check st leadId =
     (case lead_findUnique st leadId of
        None \<Rightarrow> Inl NotFound
      | Some lead \<Rightarrow>
          if lead_status lead = Lead_converted then Inl InvalidTransition else Inr lead)"

definition convertToShipment ::
  "store \<Rightarrow> int \<Rightarrow> ConvertData \<Rightarrow> date \<Rightarrow> (error + Shipment) \<times> store" where
  "convertToShipment st leadId shipmentData now =
     (case convertToShipment_check st leadId of
        Inl e \<Rightarrow> (Inl e, st)
      | Inr lead \<Rightarrow> transaction (convertToShipment_tx lead leadId shipmentData now) st)"

section \<open>Notions used in the statements\<close>

text \<open>The event row that a call of \<open>updateShipmentStatus\<close> inserts for shipment \<open>i\<close>.\<close>

definition new_event :: "store \<Rightarrow> uuid \<Rightarrow> TrackingStatus \<Rightarrow> StatusData \<Rightarrow> date \<Rightarrow> TrackingEvent" where
  "new_event st i S d now =
     \<lparr>eid = nextId st, ev_status = S, description = sd_description d,
      location = sd_location d, timestamp = effective_timestamp d now,
      ev_createdAt = now, shipmentId = i\<rparr>"

text \<open>
  Histories: a sequence of calls of the three operations that write to the shipment
  table, run one after the other. A call that fails leaves the database as it was.
\<close>

datatype call =
  Create CreateShipmentData "nat \<Rightarrow> nat \<Rightarrow> nat" date
  | Update string TrackingStatus StatusData date
  | Convert int ConvertData date

fun exec :: "store \<Rightarrow> call \<Rightarrow> (error + Shipment) \<times> store" where
  "exec st (Create data rnd now) = createShipment st data rnd now"
| "exec st (Update tn S data now) = updateShipmentStatus st tn S data now"
| "exec st (Convert leadId data now) = convertToShipment st leadId data now"

fun trace :: "store \<Rightarrow> call list \<Rightarrow> (call \<times> (error + Shipment)) list" where
  "trace st [] = []"
| "trace st (c # cs) = (c, fst (exec st c)) # trace (snd (exec st c)) cs"

fun run :: "store \<Rightarrow> call list \<Rightarrow> store" where
  "run st [] = st"
| "run st (c # cs) = run (snd (exec st c)) cs"

text \<open>
  A shipment has reached \<open>DELIVERED\<close> in a history when one of the calls was a
  successful \<open>updateShipmentStatus\<close> of its tracking number to \<open>DELIVERED\<close>.
\<close>

fun is_delivery :: "string \<Rightarrow> call \<times> (error + Shipment) \<Rightarrow> bool" where
  "is_delivery tn (Update tn' S data now, Inr s) = (tn' = tn \<and> S = DELIVERED)"
| "is_delivery tn _ = False"

definition reached_DELIVERED :: "string \<Rightarrow> store \<Rightarrow> call list \<Rightarrow> bool" where
  "reached_DELIVERED tn st cs = list_ex (is_delivery tn) (trace st cs)"

section \<open>Example databases\<close>

definition empty_store :: store where
  "empty_store = \<lparr>shipments = [], events = [], leads = [], nextId = 0\<rparr>"

definition no_data :: CreateShipmentData where
  "no_data = \<lparr>d_userId = None, d_carrier = None, d_carrierTrackingNumber = None, d_estimatedDelivery = None\<rparr>"

definition example_shipment :: Shipment where
  "example_shipment =
     \<lparr>sid = 0, trackingNumber = ''0123456789AB'', carrierTrackingNumber = None, carrier = None,
      status = PENDING, estimatedDelivery = None, actualDelivery = None, createdAt = 1000,
      updatedAt = 1000, userId = None\<rparr>"

definition st_created :: store where
  "st_created = \<lparr>shipments = [example_shipment], events = [], leads = [], nextId = 1\<rparr>"

definition in_transit_report :: StatusData where
  "in_transit_report = \<lparr>sd_description = ''Departed hub'', sd_location = None, sd_timestamp = None\<rparr>"

definition st_in_transit :: store where
  "st_in_transit =
     \<lparr>shipments = [example_shipment\<lparr>status := IN_TRANSIT, updatedAt := 2000\<rparr>],
      events = [\<lparr>eid = 1, ev_status = IN_TRANSIT, description = ''Departed hub'', location = None,
                 timestamp = 2000, ev_createdAt = 2000, shipmentId = 0\<rparr>],
      leads = [], nextId = 2\<rparr>"


definition timely_report :: StatusData where
  "timely_report = \<lparr>sd_description = ''Left at front door'', sd_location = Some ''Springfield'',
                   sd_timestamp = Some 2500\<rparr>"

definition untimed_report :: StatusData where
  "untimed_report = \<lparr>sd_description = ''Left at front door'', sd_location = Some ''Springfield'',
                     sd_timestamp = None\<rparr>"

definition delivered_shipment :: "date \<Rightarrow> Shipment" where
  "delivered_shipment t = example_shipment\<lparr>status := DELIVERED, actualDelivery := Some t, updatedAt := 3000\<rparr>"

definition st_delivered :: "date \<Rightarrow> store" where
  "st_delivered t =
     \<lparr>shipments = [delivered_shipment t],
      events = [\<lparr>eid = 1, ev_status = IN_TRANSIT, description = ''Departed hub'', location = None,
                 timestamp = 2000, ev_createdAt = 2000, shipmentId = 0\<rparr>,
                \<lparr>eid = 2, ev_status = DELIVERED, description = ''Left at front door'',
                 location = Some ''Springfield'', timestamp = t, ev_createdAt = 3000,
                 shipmentId = 0\<rparr>],
      leads = [], nextId = 3\<rparr>"

definition too_long_report :: StatusData where
  "too_long_report = \<lparr>sd_description = ''Departed hub'',
                       sd_location = Some (replicate 201 CHR ''x''), sd_timestamp = None\<rparr>"

definition new_lead :: Lead where
  "new_lead = \<lparr>lid = 1, lead_status = Lead_new, clientId = Some ''user-1''\<rparr>"

definition st_lead :: store where
  "st_lead = \<lparr>shipments = [], events = [], leads = [new_lead], nextId = 0\<rparr>"

definition st_converted :: store where
  "st_converted =
     \<lparr>shipments = [], events = [], leads = [new_lead\<lparr>lead_status := Lead_converted\<rparr>], nextId = 0\<rparr>"

definition dhl_data :: ConvertData where
  "dhl_data = \<lparr>cd_carrier = Some ''DHL'', cd_carrierTrackingNumber = Some ''JD014600003'',
                cd_estimatedDelivery = Some 9000\<rparr>"

definition mk_in_transit :: "nat \<Rightarrow> Shipment" where
  "mk_in_transit i =
     example_shipment\<lparr>sid := i, trackingNumber := generateTrackingNumber (\<lambda>j. i),
                      status := IN_TRANSIT, createdAt := int i\<rparr>"

definition st_twelve :: store where
  "st_twelve = \<lparr>shipments = map mk_in_transit [0..<12], events = [], leads = [], nextId = 12\<rparr>"

definition st_mixed :: store where
  "st_mixed =
     \<lparr>shipments =
        [example_shipment\<lparr>sid := 12, trackingNumber := ''PPPPPPPPPPPP'', createdAt := 500\<rparr>]
        @ map mk_in_transit [0..<12]
        @ [example_shipment\<lparr>sid := 13, trackingNumber := ''DDDDDDDDDDDD'', status := DELIVERED,
                            createdAt := 5000, userId := Some ''user-1''\<rparr>],
      events = [], leads = [], nextId = 14\<rparr>"

definition user_params :: ListParams where
  "user_params = \<lparr>p_userId = Some ''user-1'', p_status = None, p_page = None, p_limit = None\<rparr>"

definition page_two :: ListParams where
  "page_two = \<lparr>p_userId = None, p_status = Some IN_TRANSIT, p_page = Some 2, p_limit = Some 5\<rparr>"

section \<open>The allocator loop\<close>

lemma loop_attempts_le:
  "attempts \<le> MAX_ATTEMPTS \<Longrightarrow>
   snd (generateUniqueTrackingNumber_loop cand found attempts) \<le> MAX_ATTEMPTS"
proof (induction cand found attempts rule: generateUniqueTrackingNumber_loop.induct)
  case (1 cand found attempts)
  show ?case
  proof (cases "attempts \<ge> MAX_ATTEMPTS")
    case True
    with 1(2) show ?thesis by (simp add: generateUniqueTrackingNumber_loop.simps)
  next
    case False
    with 1 show ?thesis
      by (subst generateUniqueTrackingNumber_loop.simps) (simp add: Let_def)
  qed
qed

lemma loop_first_unused:
  "k < MAX_ATTEMPTS \<Longrightarrow> attempts \<le> k \<Longrightarrow> (\<forall>i. attempts \<le> i \<and> i < k \<longrightarrow> found i) \<Longrightarrow> \<not> found k \<Longrightarrow>
   generateUniqueTrackingNumber_loop cand found attempts = (Inr (cand k), Suc k)"
proof (induction cand found attempts rule: generateUniqueTrackingNumber_loop.induct)
  case (1 cand found attempts)
  show ?case
  proof (cases "attempts = k")
    case True
    with 1(2,5) show ?thesis
      by (subst generateUniqueTrackingNumber_loop.simps) (simp add: Let_def)
  next
    case False
    with 1(3) have lt: "attempts < k" by simp
    with 1(4) have f: "found attempts" by simp
    have "generateUniqueTrackingNumber_loop cand found (attempts + 1) = (Inr (cand k), Suc k)"
      using 1(1)[OF _ refl refl refl f] 1(2,4,5) lt by simp
    with f lt 1(2) show ?thesis
      by (subst generateUniqueTrackingNumber_loop.simps) (simp add: Let_def)
  qed
qed

lemma loop_exhausted:
  "attempts \<le> MAX_ATTEMPTS \<Longrightarrow> (\<forall>i. attempts \<le> i \<and> i < MAX_ATTEMPTS \<longrightarrow> found i) \<Longrightarrow>
   generateUniqueTrackingNumber_loop cand found attempts = (Inl AllocationExhausted, MAX_ATTEMPTS)"
proof (induction cand found attempts rule: generateUniqueTrackingNumber_loop.induct)
  case (1 cand found attempts)
  show ?case
  proof (cases "attempts = MAX_ATTEMPTS")
    case True
    then show ?thesis by (subst generateUniqueTrackingNumber_loop.simps) simp
  next
    case False
    with 1(2) have lt: "attempts < MAX_ATTEMPTS" by simp
    with 1(3) have f: "found attempts" by simp
    have "generateUniqueTrackingNumber_loop cand found (attempts + 1) = (Inl AllocationExhausted, MAX_ATTEMPTS)"
      using 1(1)[OF _ refl refl refl f] 1(3) lt by simp
    with f lt show ?thesis
      by (subst generateUniqueTrackingNumber_loop.simps) (simp add: Let_def)
  qed
qed

lemma loop_result_is_candidate:
  "generateUniqueTrackingNumber_loop cand found attempts = (Inr tn, n) \<Longrightarrow>
   \<exists>k<MAX_ATTEMPTS. tn = cand k \<and> \<not> found k"
proof (induction cand found attempts rule: generateUniqueTrackingNumber_loop.induct)
  case (1 cand found attempts)
  show ?case
  proof (cases "attempts \<ge> MAX_ATTEMPTS")
    case True
    with 1(2) show ?thesis by (simp add: generateUniqueTrackingNumber_loop.simps)
  next
    case False
    show ?thesis
    proof (cases "found attempts")
      case True
      with False 1(2) have "generateUniqueTrackingNumber_loop cand found (attempts + 1) = (Inr tn, n)"
        by (subst (asm) generateUniqueTrackingNumber_loop.simps) (simp add: Let_def)
      with 1(1)[OF _ refl refl refl True] False show ?thesis by simp
    next
      case nf: False
      with False 1(2) have "tn = cand attempts"
        by (subst (asm) generateUniqueTrackingNumber_loop.simps) (simp add: Let_def)
      with nf False show ?thesis by (intro exI [of _ attempts]) simp
    qed
  qed
qed

lemma generateUnique_is_candidate:
  "generateUniqueTrackingNumber st rnd = Inr tn \<Longrightarrow>
   \<exists>k<MAX_ATTEMPTS. tn = generateTrackingNumber (rnd k) \<and> findUnique st tn = None"
proof -
  assume a: "generateUniqueTrackingNumber st rnd = Inr tn"
  obtain r n where rn: "generateUniqueTrackingNumber_loop
            (\<lambda>i. generateTrackingNumber (rnd i))
            (\<lambda>i. findUnique st (generateTrackingNumber (rnd i)) \<noteq> None) 0 = (r, n)"
    by (cases "generateUniqueTrackingNumber_loop
            (\<lambda>i. generateTrackingNumber (rnd i))
            (\<lambda>i. findUnique st (generateTrackingNumber (rnd i)) \<noteq> None) 0") 
  with a have "r = Inr tn" by (simp add: generateUniqueTrackingNumber_def)
  with rn have "\<exists>k<MAX_ATTEMPTS. tn = generateTrackingNumber (rnd k)
      \<and> \<not> findUnique st (generateTrackingNumber (rnd k)) \<noteq> None"
    by (intro loop_result_is_candidate [of _ _ 0 tn n]) simp
  then show ?thesis by auto
qed

text \<open>
  Claim C6. The allocator terminates on every sequence of uniqueness-check outcomes
  (the loop is a total function: its recursion decreases \<open>MAX_ATTEMPTS - attempts\<close>).
  It generates at most 10 candidates; it returns the first candidate whose check finds
  no shipment, having generated no candidate after it; and when the first 10 candidates
  all collide it fails with the allocation-exhausted error after exactly 10. Run against
  a database, the candidate it returns is the tracking number of no shipment.
\<close>

theorem allocator_bounded:
  "snd (generateUniqueTrackingNumber_loop cand found 0) \<le> 10 \<and>
   (\<forall>k<10. (\<forall>i<k. found i) \<and> \<not> found k \<longrightarrow>
      generateUniqueTrackingNumber_loop cand found 0 = (Inr (cand k), Suc k)) \<and>
   ((\<forall>i<10. found i) \<longrightarrow>
      generateUniqueTrackingNumber_loop cand found 0 = (Inl AllocationExhausted, 10)) \<and>
   (\<forall>tn. generateUniqueTrackingNumber st rnd = Inr tn \<longrightarrow> findUnique st tn = None)"
proof (intro conjI allI impI)
  show "snd (generateUniqueTrackingNumber_loop cand found 0) \<le> 10"
    using loop_attempts_le [of 0 cand found] by (simp add: MAX_ATTEMPTS_def)
next
  fix k assume "k < 10" and "(\<forall>i<k. found i) \<and> \<not> found k"
  then show "generateUniqueTrackingNumber_loop cand found 0 = (Inr (cand k), Suc k)"
    using loop_first_unused [of k 0 found cand] by (simp add: MAX_ATTEMPTS_def)
next
  assume "\<forall>i<10. found i"
  then show "generateUniqueTrackingNumber_loop cand found 0 = (Inl AllocationExhausted, 10)"
    using loop_exhausted [of 0 found cand] by (simp add: MAX_ATTEMPTS_def)
next
  fix tn assume "generateUniqueTrackingNumber st rnd = Inr tn"
  then show "findUnique st tn = None"
    using generateUnique_is_candidate by blast
qed

lemma retry_candidates:
  "generateTrackingNumber (\<lambda>j. 0 + j) = ''0123456789AB''"
  "generateTrackingNumber (\<lambda>j. Suc 0 + j) = ''123456789ABC''"
  by (simp_all add: generateTrackingNumber_def customAlphabet_def alphabet_def upt_rec)

lemma retry_example:
  "generateUniqueTrackingNumber st_created (\<lambda>i j. i + j) = Inr ''123456789ABC''"
  by (simp add: generateUniqueTrackingNumber_def generateUniqueTrackingNumber_loop.simps
      MAX_ATTEMPTS_def retry_candidates findUnique_def st_created_def example_shipment_def)

theorem allocator_bounded_witness:
  "generateUniqueTrackingNumber_loop (\<lambda>i. generateTrackingNumber (\<lambda>j. i)) (\<lambda>i. i < 2) 0
     = (Inr (generateTrackingNumber (\<lambda>j. 2)), 3) \<and>
   generateUniqueTrackingNumber_loop (\<lambda>i. generateTrackingNumber (\<lambda>j. i)) (\<lambda>i. True) 0
     = (Inl AllocationExhausted, 10) \<and>
   generateUniqueTrackingNumber st_created (\<lambda>i j. i + j) = Inr ''123456789ABC'' \<and>
   findUnique st_created ''123456789ABC'' = None"
proof (intro conjI)
  have h: "(\<forall>i<2. i < (2::nat)) \<and> \<not> (2::nat) < 2" by simp
  have "(2::nat) < 10" by simp
  from allocator_bounded [of "\<lambda>i. generateTrackingNumber (\<lambda>j. i)" "\<lambda>i. i < 2",
      THEN conjunct2, THEN conjunct1, rule_format, OF this h]
  show "generateUniqueTrackingNumber_loop (\<lambda>i. generateTrackingNumber (\<lambda>j. i)) (\<lambda>i. i < 2) 0
     = (Inr (generateTrackingNumber (\<lambda>j. 2)), 3)" by simp
next
  from allocator_bounded [of "\<lambda>i. generateTrackingNumber (\<lambda>j. i)" "\<lambda>i. True"]
  show "generateUniqueTrackingNumber_loop (\<lambda>i. generateTrackingNumber (\<lambda>j. i)) (\<lambda>i. True) 0
     = (Inl AllocationExhausted, 10)" by simp
next
  show "generateUniqueTrackingNumber st_created (\<lambda>i j. i + j) = Inr ''123456789ABC''"
    by (rule retry_example)
next
  from allocator_bounded [of _ _ st_created "\<lambda>i j. i + j"] retry_example
  show "findUnique st_created ''123456789ABC'' = None" by blast
qed

section \<open>Format of tracking numbers\<close>

lemma customAlphabet_format:
  "abc \<noteq> [] \<Longrightarrow> length (customAlphabet abc n rnd) = n \<and> set (customAlphabet abc n rnd) \<subseteq> set abc"
  by (auto simp: customAlphabet_def)

lemma generateTrackingNumber_format:
  "length (generateTrackingNumber r) = 12 \<and> set (generateTrackingNumber r) \<subseteq> set alphabet"
  using customAlphabet_format [of alphabet 12 r]
  by (simp add: generateTrackingNumber_def alphabet_def)

lemma alphabet_no_I_O: "CHR ''I'' \<notin> set alphabet \<and> CHR ''O'' \<notin> set alphabet"
  by (simp add: alphabet_def)

lemma createShipment_Inr:
  "createShipment st data rnd now = (Inr s, st') \<Longrightarrow>
   \<exists>tn. generateUniqueTrackingNumber st rnd = Inr tn \<and> trackingNumber s = tn
     \<and> status s = PENDING \<and> actualDelivery s = None
     \<and> shipments st' = shipments st @ [s]"
  by (auto simp: createShipment_def transaction_def shipment_create_def Let_def
           split: sum.splits if_splits)

text \<open>
  Claim C7. Every tracking number that the allocator returns, and so the
  \<open>trackingNumber\<close> of every shipment that \<open>createShipment\<close> creates, has length 12 and
  only characters of \<open>0123456789ABCDEFGHJKLMNPQRSTUVWXYZ\<close>; it contains neither \<open>I\<close>
  nor \<open>O\<close>.
\<close>

theorem tracking_number_format:
  "(generateUniqueTrackingNumber st rnd = Inr tn \<longrightarrow>
      length tn = 12 \<and> set tn \<subseteq> set ''0123456789ABCDEFGHJKLMNPQRSTUVWXYZ''
      \<and> CHR ''I'' \<notin> set tn \<and> CHR ''O'' \<notin> set tn) \<and>
   (createShipment st data rnd now = (Inr s, st') \<longrightarrow>
      length (trackingNumber s) = 12
      \<and> set (trackingNumber s) \<subseteq> set ''0123456789ABCDEFGHJKLMNPQRSTUVWXYZ''
      \<and> CHR ''I'' \<notin> set (trackingNumber s) \<and> CHR ''O'' \<notin> set (trackingNumber s))"
proof -
  have fmt: "length t = 12 \<and> set t \<subseteq> set ''0123456789ABCDEFGHJKLMNPQRSTUVWXYZ''
      \<and> CHR ''I'' \<notin> set t \<and> CHR ''O'' \<notin> set t"
    if "generateUniqueTrackingNumber st rnd = Inr t" for t
  proof -
    from that obtain k where "t = generateTrackingNumber (rnd k)"
      using generateUnique_is_candidate by blast
    then have "length t = 12" and sub: "set t \<subseteq> set alphabet"
      using generateTrackingNumber_format [of "rnd k"] by simp_all
    moreover from sub have "CHR ''I'' \<notin> set t" "CHR ''O'' \<notin> set t"
      using alphabet_no_I_O by blast+
    ultimately show ?thesis by (simp add: alphabet_def)
  qed
  show ?thesis
  proof (intro conjI impI)
    assume "createShipment st data rnd now = (Inr s, st')"
    then have g: "generateUniqueTrackingNumber st rnd = Inr (trackingNumber s)"
      using createShipment_Inr by blast
    from fmt [OF g] show "length (trackingNumber s) = 12" 
      "set (trackingNumber s) \<subseteq> set ''0123456789ABCDEFGHJKLMNPQRSTUVWXYZ''"
      "CHR ''I'' \<notin> set (trackingNumber s)" "CHR ''O'' \<notin> set (trackingNumber s)" by simp_all
  qed (use fmt in simp_all)
qed

lemma candidate_example: "generateTrackingNumber (\<lambda>j. j) = ''0123456789AB''"
  by (simp add: generateTrackingNumber_def customAlphabet_def alphabet_def upt_rec)

lemma allocated_example: "generateUniqueTrackingNumber empty_store (\<lambda>i j. j) = Inr ''0123456789AB''"
  by (simp add: generateUniqueTrackingNumber_def generateUniqueTrackingNumber_loop.simps MAX_ATTEMPTS_def candidate_example findUnique_def empty_store_def)

lemma createShipment_example: "createShipment empty_store no_data (\<lambda>i j. j) 1000 = 
  (Inr \<lparr>sid = 0, trackingNumber = ''0123456789AB'', carrierTrackingNumber = None, carrier = None,
            status = PENDING, estimatedDelivery = None, actualDelivery = None, createdAt = 1000,
            updatedAt = 1000, userId = None\<rparr>,
     \<lparr>shipments =
         [\<lparr>sid = 0, trackingNumber = ''0123456789AB'', carrierTrackingNumber = None, carrier = None,
             status = PENDING, estimatedDelivery = None, actualDelivery = None, createdAt = 1000,
             updatedAt = 1000, userId = None\<rparr>],
        events = [], leads = [], nextId = 1\<rparr>)"
  unfolding createShipment_def allocated_example
  by (simp add: transaction_def shipment_create_def findUnique_def empty_store_def no_data_def
      too_long_def Let_def)

theorem tracking_number_format_witness:
  "generateUniqueTrackingNumber empty_store (\<lambda>i j. j) = Inr ''0123456789AB'' \<and>
   length ''0123456789AB'' = 12 \<and>
   set ''0123456789AB'' \<subseteq> set ''0123456789ABCDEFGHJKLMNPQRSTUVWXYZ'' \<and>
   (\<exists>s st'. createShipment empty_store no_data (\<lambda>i j. j) 1000 = (Inr s, st') \<and>
      length (trackingNumber s) = 12)"
proof -
  obtain s st' where c: "createShipment empty_store no_data (\<lambda>i j. j) 1000 = (Inr s, st')"
    using createShipment_example by blast
  from tracking_number_format [of empty_store "\<lambda>i j. j" "''0123456789AB''" no_data 1000 s st']
    allocated_example c
  show ?thesis by blast
qed

section \<open>updateShipmentStatus\<close>

lemma find_update_first_same:
  "(\<And>x. P x \<Longrightarrow> P (f x)) \<Longrightarrow> find P (update_first P f xs) = map_option f (find P xs)"
  by (induction xs) auto

lemma find_update_first_other:
  "(\<And>x. P x \<Longrightarrow> \<not> Q x \<and> \<not> Q (f x)) \<Longrightarrow> find Q (update_first P f xs) = find Q xs"
  by (induction xs) auto

lemma find_update_first_key:
  "(\<And>x. k (f x) = k x) \<Longrightarrow> s \<in> set xs \<Longrightarrow>
   find (\<lambda>r. k r = k s) (update_first P f xs) \<noteq> None"
proof -
  assume k: "\<And>x. k (f x) = k x" and f: "s \<in> set xs"
  have "map k (update_first P f xs) = map k xs"
    by (induction xs) (auto simp: k)
  with f have "k s \<in> set (map k (update_first P f xs))" by simp
  then show ?thesis by (auto simp: find_None_iff)
qed

lemma apply_update_keys [simp]:
  "sid (apply_update d now s) = sid s"
  "trackingNumber (apply_update d now s) = trackingNumber s"
  by (simp_all add: apply_update_def)

lemma updateShipmentStatus_eq:
  "updateShipmentStatus st tn S d now =
     (case findUnique st tn of
        None \<Rightarrow> (Inl NotFound, st)
      | Some s \<Rightarrow>
          if too_long 200 (sd_location d) then (Inl ValueTooLong, st)
          else
          (Inr (apply_update (statusUpdateData S d now) now s),
           st\<lparr>shipments := update_first (\<lambda>r. trackingNumber r = tn)
                              (apply_update (statusUpdateData S d now) now) (shipments st),
              events := events st @ [new_event st (sid s) S d now],
              nextId := Suc (nextId st)\<rparr>))"
proof (cases "findUnique st tn")
  case None
  then show ?thesis
    by (simp add: updateShipmentStatus_def updateShipmentStatus_tx_def transaction_def
        shipment_update_def Let_def)
next
  case (Some s)
  then have f: "find (\<lambda>r. trackingNumber r = tn) (shipments st) = Some s"
    by (simp add: findUnique_def)
  have fk: "find (\<lambda>r. sid r = sid s)
          (update_first (\<lambda>r. trackingNumber r = tn)
             (apply_update (statusUpdateData S d now) now) (shipments st)) \<noteq> None"
  proof (rule find_update_first_key)
    from f show "s \<in> set (shipments st)" by (auto simp: find_Some_iff)
  qed simp
  with Some show ?thesis
    by (auto simp add: updateShipmentStatus_def updateShipmentStatus_tx_def transaction_def
        shipment_update_def trackingEvent_create_def Let_def new_event_def)
qed


lemma updateShipmentStatus_Inl:
  "updateShipmentStatus st tn S d now = (Inl e, st') \<Longrightarrow>
   st' = st"
  by (auto simp: updateShipmentStatus_eq split: option.splits if_splits)

lemma updateShipmentStatus_Inr:
  assumes "updateShipmentStatus st tn S d now = (Inr s', st')"
  shows "\<exists>s. findUnique st tn = Some s
           \<and> s' = apply_update (statusUpdateData S d now) now s
           \<and> findUnique st' tn = Some s'
           \<and> events st' = events st @ [new_event st (sid s') S d now]"
proof -
  from assms obtain s where s: "findUnique st tn = Some s"
    and l: "\<not> too_long 200 (sd_location d)"
    by (auto simp: updateShipmentStatus_eq split: option.splits if_splits)
  with assms have s': "s' = apply_update (statusUpdateData S d now) now s"
    and st': "st' = st\<lparr>shipments := update_first (\<lambda>r. trackingNumber r = tn)
                              (apply_update (statusUpdateData S d now) now) (shipments st),
              events := events st @ [new_event st (sid s) S d now],
              nextId := Suc (nextId st)\<rparr>"
    by (simp_all add: updateShipmentStatus_eq)
  have "findUnique st' tn = Some s'"
    using s by (simp add: st' s' findUnique_def find_update_first_same)
  with s s' st' show ?thesis by simp
qed

lemma status_apply_update [simp]:
  "status (apply_update (statusUpdateData S d now) now s) = S"
  by (simp add: apply_update_def statusUpdateData_def)

lemma actualDelivery_apply_update [simp]:
  "actualDelivery (apply_update (statusUpdateData S d now) now s) =
     (if S = DELIVERED then Some (effective_timestamp d now) else actualDelivery s)"
  by (simp add: apply_update_def statusUpdateData_def)

lemma created_example:
  "createShipment empty_store no_data (\<lambda>i j. j) 1000 = (Inr example_shipment, st_created)"
  using createShipment_example by (simp add: example_shipment_def st_created_def)

lemma find_example [simp]:
  "findUnique st_created ''0123456789AB'' = Some example_shipment"
  "findUnique st_created ''ZZZZZZZZZZZZ'' = None"
  "findUnique st_in_transit ''0123456789AB'' = Some (example_shipment\<lparr>status := IN_TRANSIT, updatedAt := 2000\<rparr>)"
  by (simp_all add: findUnique_def st_created_def example_shipment_def st_in_transit_def)

lemma in_transit_example:
  "updateShipmentStatus st_created ''0123456789AB'' IN_TRANSIT in_transit_report 2000
     = (Inr (example_shipment\<lparr>status := IN_TRANSIT, updatedAt := 2000\<rparr>), st_in_transit)"
  by (simp add: updateShipmentStatus_eq too_long_def in_transit_report_def apply_update_def
      statusUpdateData_def new_event_def effective_timestamp_def)
     (simp add: st_created_def st_in_transit_def example_shipment_def apply_update_def)


lemma timely_example:
  "updateShipmentStatus st_in_transit ''0123456789AB'' DELIVERED timely_report 3000
     = (Inr (delivered_shipment 2500), st_delivered 2500)"
  by (simp add: updateShipmentStatus_eq too_long_def timely_report_def apply_update_def
      statusUpdateData_def new_event_def effective_timestamp_def)
     (simp add: st_delivered_def st_in_transit_def example_shipment_def delivered_shipment_def
        apply_update_def)

lemma untimed_example:
  "updateShipmentStatus st_in_transit ''0123456789AB'' DELIVERED untimed_report 3000
     = (Inr (delivered_shipment 3000), st_delivered 3000)"
  by (simp add: updateShipmentStatus_eq too_long_def untimed_report_def apply_update_def
      statusUpdateData_def new_event_def effective_timestamp_def)
     (simp add: st_delivered_def st_in_transit_def example_shipment_def delivered_shipment_def
        apply_update_def)

lemma too_long_example:
  "updateShipmentStatus st_created ''0123456789AB'' IN_TRANSIT too_long_report 2000
     = (Inl ValueTooLong, st_created)"
  by (simp add: updateShipmentStatus_eq too_long_def too_long_report_def)

text \<open>
  Claim C4. \<open>updateShipmentStatus\<close> fails with \<open>NotFound\<close> when no shipment has the
  tracking number; whenever it fails, for whatever reason, the database is unchanged
  (neither the status change nor an event is committed); whenever it succeeds, the
  shipment found under the tracking number has the new status and the event table has
  grown by exactly the event recording that status.
\<close>

theorem updateShipmentStatus_atomic:
  "(findUnique st tn = None \<longrightarrow> updateShipmentStatus st tn S d now = (Inl NotFound, st)) \<and>
   (\<forall>e st'. updateShipmentStatus st tn S d now = (Inl e, st') \<longrightarrow> st' = st) \<and>
   (\<forall>s' st'. updateShipmentStatus st tn S d now = (Inr s', st') \<longrightarrow>
      findUnique st' tn = Some s' \<and> status s' = S \<and>
      events st' = events st @ [new_event st (sid s') S d now] \<and>
      ev_status (new_event st (sid s') S d now) = S)"
proof (intro conjI allI impI)
  assume "findUnique st tn = None"
  then show "updateShipmentStatus st tn S d now = (Inl NotFound, st)"
    by (simp add: updateShipmentStatus_eq)
next
  fix e st' assume "updateShipmentStatus st tn S d now = (Inl e, st')"
  from updateShipmentStatus_Inl [OF this]
  show "st' = st" .
next
  fix s' st' assume "updateShipmentStatus st tn S d now = (Inr s', st')"
  from updateShipmentStatus_Inr [OF this]
  show "findUnique st' tn = Some s'" "status s' = S"
    "events st' = events st @ [new_event st (sid s') S d now]"
    by auto
  show "ev_status (new_event st (sid s') S d now) = S" by (simp add: new_event_def)
qed

theorem updateShipmentStatus_atomic_witness:
  "updateShipmentStatus st_created ''ZZZZZZZZZZZZ'' IN_TRANSIT in_transit_report 2000
     = (Inl NotFound, st_created) \<and>
   updateShipmentStatus st_created ''0123456789AB'' IN_TRANSIT too_long_report 2000
     = (Inl ValueTooLong, st_created) \<and>
   updateShipmentStatus st_created ''0123456789AB'' IN_TRANSIT in_transit_report 2000
     = (Inr (example_shipment\<lparr>status := IN_TRANSIT, updatedAt := 2000\<rparr>), st_in_transit) \<and>
   findUnique st_in_transit ''0123456789AB''
     = Some (example_shipment\<lparr>status := IN_TRANSIT, updatedAt := 2000\<rparr>) \<and>
   events st_in_transit
     = events st_created @ [new_event st_created 0 IN_TRANSIT in_transit_report 2000]"
proof -
  have "findUnique st_created ''ZZZZZZZZZZZZ'' = None" by simp
  with updateShipmentStatus_atomic
    [of st_created "''ZZZZZZZZZZZZ''" IN_TRANSIT in_transit_report 2000]
  have a: "updateShipmentStatus st_created ''ZZZZZZZZZZZZ'' IN_TRANSIT in_transit_report 2000
     = (Inl NotFound, st_created)" by blast
  from updateShipmentStatus_atomic
    [of st_created "''0123456789AB''" IN_TRANSIT in_transit_report 2000] in_transit_example
  have b: "findUnique st_in_transit ''0123456789AB''
       = Some (example_shipment\<lparr>status := IN_TRANSIT, updatedAt := 2000\<rparr>)"
    "events st_in_transit = events st_created @
       [new_event st_created (sid (example_shipment\<lparr>status := IN_TRANSIT, updatedAt := 2000\<rparr>))
          IN_TRANSIT in_transit_report 2000]"
    by blast+
  from b(2) have "events st_in_transit
     = events st_created @ [new_event st_created 0 IN_TRANSIT in_transit_report 2000]"
    by (simp add: example_shipment_def)
  with a b(1) too_long_example in_transit_example show ?thesis by simp
qed

section \<open>Status and newest event\<close>




lemma set_orderBy_timestamp_desc [simp]: "set (orderBy_timestamp_desc xs) = set xs"
  by (simp add: orderBy_timestamp_desc_def)




section \<open>actualDelivery\<close>

lemma convertToShipment_tx_fails:
  "convertToShipment_tx lead leadId d now tx = Inl (ValidationError ''Argument trackingNumber is missing'')"
  by (simp add: convertToShipment_tx_def shipment_create_def)

lemma convertToShipment_eq:
  "convertToShipment st leadId d now =
     (case lead_findUnique st leadId of
        None \<Rightarrow> (Inl NotFound, st)
      | Some lead \<Rightarrow>
          if lead_status lead = Lead_converted then (Inl InvalidTransition, st)
          else (Inl (ValidationError ''Argument trackingNumber is missing''), st))"
  by (simp add: convertToShipment_def convertToShipment_check_def transaction_def
      convertToShipment_tx_fails split: option.splits)

lemma convertToShipment_unchanged: "snd (convertToShipment st leadId d now) = st"
  by (simp add: convertToShipment_eq split: option.splits)

lemma createShipment_cases:
  "createShipment st data rnd now = (r, st') \<Longrightarrow>
   (st' = st \<and> isl r) \<or> (\<exists>s. r = Inr s \<and> shipments st' = shipments st @ [s])"
  by (auto simp: createShipment_def transaction_def shipment_create_def Let_def
           split: sum.splits if_splits)

lemma find_append_Some: "find P xs = Some x \<Longrightarrow> find P (xs @ ys) = Some x"
  by (induction xs) (auto split: if_splits)

lemma find_append_None: "find P xs = None \<Longrightarrow> find P (xs @ [y]) = (if P y then Some y else None)"
  by (induction xs) (auto split: if_splits)

lemma exec_step:
  assumes "findUnique st tn = Some s" and "exec st c = (r, st')"
  shows "\<exists>s'. findUnique st' tn = Some s' \<and>
           (actualDelivery s' \<noteq> None) = (actualDelivery s \<noteq> None \<or> is_delivery tn (c, r))"
proof (cases c)
  case (Create data rnd now)
  with assms(2) have c: "createShipment st data rnd now = (r, st')" by simp
  from createShipment_cases [OF c] assms(1) have "findUnique st' tn = Some s"
    by (auto simp: findUnique_def find_append_Some)
  with Create show ?thesis by simp
next
  case (Convert leadId data now)
  with assms(2) have "st' = st" "isl r"
    using convertToShipment_unchanged [of st leadId data now]
    by (auto simp: convertToShipment_eq split: option.splits if_splits)
  with Convert assms(1) show ?thesis by (cases r) auto
next
  case (Update tn' S data now)
  with assms(2) have u: "updateShipmentStatus st tn' S data now = (r, st')" by simp
  show ?thesis
  proof (cases r)
    case (Inl e)
    with u have "st' = st" using updateShipmentStatus_Inl by blast
    with Inl Update assms(1) show ?thesis by simp
  next
    case (Inr s2)
    with u obtain s1 where s1: "findUnique st tn' = Some s1"
      and nl: "\<not> too_long 200 (sd_location data)"
      by (auto simp: updateShipmentStatus_eq split: option.splits if_splits)
    with u have st': "shipments st' = update_first (\<lambda>r. trackingNumber r = tn')
                              (apply_update (statusUpdateData S data now) now) (shipments st)"
      by (auto simp: updateShipmentStatus_eq)
    show ?thesis
    proof (cases "tn' = tn")
      case True
      with assms(1) have "findUnique st' tn = Some (apply_update (statusUpdateData S data now) now s)"
        by (simp add: findUnique_def st' find_update_first_same)
      with True Inr Update show ?thesis by simp
    next
      case False
      then have "findUnique st' tn = findUnique st tn"
        unfolding findUnique_def st' by (intro find_update_first_other) simp
      with False Inr Update assms(1) show ?thesis by simp
    qed
  qed
qed

lemma run_invariant:
  "findUnique st tn = Some s \<Longrightarrow>
   \<exists>s'. findUnique (run st cs) tn = Some s' \<and>
     (actualDelivery s' \<noteq> None) = (actualDelivery s \<noteq> None \<or> reached_DELIVERED tn st cs)"
proof (induction cs arbitrary: st s)
  case Nil
  then show ?case by (simp add: reached_DELIVERED_def)
next
  case (Cons c cs)
  obtain r st1 where e: "exec st c = (r, st1)" by (cases "exec st c")
  from exec_step [OF Cons.prems e] obtain s1 where s1: "findUnique st1 tn = Some s1"
    and a1: "(actualDelivery s1 \<noteq> None) = (actualDelivery s \<noteq> None \<or> is_delivery tn (c, r))"
    by blast
  from Cons.IH [OF s1] obtain s' where "findUnique (run st1 cs) tn = Some s'"
    and "(actualDelivery s' \<noteq> None) = (actualDelivery s1 \<noteq> None \<or> reached_DELIVERED tn st1 cs)"
    by blast
  with a1 e show ?case by (auto simp: reached_DELIVERED_def)
qed

lemma createShipment_found:
  assumes "createShipment st data rnd now = (Inr s, st')"
  shows "findUnique st' (trackingNumber s) = Some s \<and> actualDelivery s = None \<and> status s = PENDING"
proof -
  from createShipment_Inr [OF assms]
  have g: "generateUniqueTrackingNumber st rnd = Inr (trackingNumber s)"
    and p: "status s = PENDING" "actualDelivery s = None"
    and sh: "shipments st' = shipments st @ [s]" by auto
  from generateUnique_is_candidate [OF g] have "findUnique st (trackingNumber s) = None" by blast
  then have "findUnique st' (trackingNumber s) = Some s"
    by (simp add: findUnique_def sh find_append_None)
  with p show ?thesis by simp
qed

lemma returned_example:
  "\<exists>s' st'. updateShipmentStatus (st_delivered 2500) ''0123456789AB'' RETURNED in_transit_report 4000
     = (Inr s', st')"
  by (simp add: updateShipmentStatus_eq too_long_def in_transit_report_def
      findUnique_def st_delivered_def delivered_shipment_def example_shipment_def)

text \<open>
  Claim C5. A successful \<open>updateShipmentStatus\<close> to \<open>DELIVERED\<close> with effective
  timestamp \<open>T\<close> (the caller's timestamp, or the clock at the call when it is omitted)
  sets \<open>actualDelivery\<close> to \<open>T\<close>; a successful update to any other status leaves \<open>actualDelivery\<close> as it was;
  and after any history of calls that follows the creation of a shipment, its
  \<open>actualDelivery\<close> is non-null if and only if it has reached \<open>DELIVERED\<close> at least
  once in that history.
\<close>

theorem actualDelivery_tracks_DELIVERED:
  "(\<forall>s' st'. updateShipmentStatus st tn DELIVERED d now = (Inr s', st') \<longrightarrow>
      findUnique st' tn = Some s' \<and>
      actualDelivery s' = Some (case sd_timestamp d of Some t \<Rightarrow> t | None \<Rightarrow> now)) \<and>
   (\<forall>S s s' st'. S \<noteq> DELIVERED \<and> findUnique st tn = Some s \<and>
        updateShipmentStatus st tn S d now = (Inr s', st') \<longrightarrow>
      findUnique st' tn = Some s' \<and> actualDelivery s' = actualDelivery s) \<and>
   (\<forall>s0 st1. createShipment st0 data rnd t0 = (Inr s0, st1) \<longrightarrow>
      (\<exists>s. findUnique (run st1 cs) (trackingNumber s0) = Some s \<and>
           (actualDelivery s \<noteq> None) = reached_DELIVERED (trackingNumber s0) st1 cs))"
proof -
  have A: "findUnique st' tn = Some s' \<and>
      actualDelivery s' = Some (case sd_timestamp d of Some t \<Rightarrow> t | None \<Rightarrow> now)"
    if "updateShipmentStatus st tn DELIVERED d now = (Inr s', st')" for s' st'
    using updateShipmentStatus_Inr [OF that] by (auto simp: effective_timestamp_def)
  have B: "findUnique st' tn = Some s' \<and> actualDelivery s' = actualDelivery s"
    if "S \<noteq> DELIVERED \<and> findUnique st tn = Some s \<and>
        updateShipmentStatus st tn S d now = (Inr s', st')" for S s s' st'
  proof -
    from that have "updateShipmentStatus st tn S d now = (Inr s', st')" by simp
    from updateShipmentStatus_Inr [OF this] that show ?thesis by auto
  qed
  have C: "\<exists>s. findUnique (run st1 cs) (trackingNumber s0) = Some s \<and>
           (actualDelivery s \<noteq> None) = reached_DELIVERED (trackingNumber s0) st1 cs"
    if "createShipment st0 data rnd t0 = (Inr s0, st1)" for s0 st1
  proof -
    from createShipment_found [OF that]
    have f: "findUnique st1 (trackingNumber s0) = Some s0" and n: "actualDelivery s0 = None"
      by simp_all
    from run_invariant [OF f, of cs] n show ?thesis by simp
  qed
  from A B C show ?thesis by blast
qed

theorem actualDelivery_tracks_DELIVERED_witness:
  "(\<exists>s' st'. updateShipmentStatus st_in_transit ''0123456789AB'' DELIVERED timely_report 3000
       = (Inr s', st') \<and> actualDelivery s' = Some 2500) \<and>
   (\<exists>s' st'. updateShipmentStatus st_in_transit ''0123456789AB'' DELIVERED untimed_report 3000
       = (Inr s', st') \<and> actualDelivery s' = Some 3000) \<and>
   (\<exists>s' st'. updateShipmentStatus (st_delivered 2500) ''0123456789AB'' RETURNED
       in_transit_report 4000 = (Inr s', st') \<and> actualDelivery s' = Some 2500) \<and>
   (\<exists>s. findUnique
          (run st_created
             [Update ''0123456789AB'' IN_TRANSIT in_transit_report 2000,
              Update ''0123456789AB'' DELIVERED timely_report 3000]) ''0123456789AB'' = Some s \<and>
        actualDelivery s = Some 2500 \<and>
        reached_DELIVERED ''0123456789AB'' st_created
          [Update ''0123456789AB'' IN_TRANSIT in_transit_report 2000,
           Update ''0123456789AB'' DELIVERED timely_report 3000])"
proof (intro conjI)
  from actualDelivery_tracks_DELIVERED
    [of st_in_transit "''0123456789AB''" timely_report 3000] timely_example
  show "\<exists>s' st'. updateShipmentStatus st_in_transit ''0123456789AB'' DELIVERED timely_report 3000
       = (Inr s', st') \<and> actualDelivery s' = Some 2500"
    by (simp add: delivered_shipment_def)
next
  from actualDelivery_tracks_DELIVERED
    [of st_in_transit "''0123456789AB''" untimed_report 3000] untimed_example
  show "\<exists>s' st'. updateShipmentStatus st_in_transit ''0123456789AB'' DELIVERED untimed_report 3000
       = (Inr s', st') \<and> actualDelivery s' = Some 3000"
    by (simp add: delivered_shipment_def)
next
  from returned_example obtain s' st'
    where u: "updateShipmentStatus (st_delivered 2500) ''0123456789AB'' RETURNED
       in_transit_report 4000 = (Inr s', st')" by blast
  have f: "findUnique (st_delivered 2500) ''0123456789AB'' = Some (delivered_shipment 2500)"
    by (simp add: findUnique_def st_delivered_def delivered_shipment_def example_shipment_def)
  have "RETURNED \<noteq> DELIVERED" by simp
  with actualDelivery_tracks_DELIVERED
    [of "st_delivered 2500" "''0123456789AB''" in_transit_report 4000] u f
  have "actualDelivery s' = actualDelivery (delivered_shipment 2500)" by blast
  with u show "\<exists>s' st'. updateShipmentStatus (st_delivered 2500) ''0123456789AB'' RETURNED
       in_transit_report 4000 = (Inr s', st') \<and> actualDelivery s' = Some 2500"
    by (simp add: delivered_shipment_def)
next
  let ?cs = "[Update ''0123456789AB'' IN_TRANSIT in_transit_report 2000,
              Update ''0123456789AB'' DELIVERED timely_report 3000]"
  have r: "run st_created ?cs = st_delivered 2500"
    by (simp add: in_transit_example timely_example)
  have f: "findUnique (st_delivered 2500) ''0123456789AB'' = Some (delivered_shipment 2500)"
    by (simp add: findUnique_def st_delivered_def delivered_shipment_def example_shipment_def)
  from actualDelivery_tracks_DELIVERED [of _ _ _ _ empty_store no_data "\<lambda>i j. j" 1000 ?cs]
    created_example
  obtain s where s: "findUnique (run st_created ?cs) (trackingNumber example_shipment) = Some s"
    and i: "(actualDelivery s \<noteq> None) =
              reached_DELIVERED (trackingNumber example_shipment) st_created ?cs"
    by blast
  have tn: "trackingNumber example_shipment = ''0123456789AB''"
    by (simp add: example_shipment_def)
  from s r f have "s = delivered_shipment 2500" by (simp only: tn) simp
  then have a: "actualDelivery s = Some 2500" by (simp add: delivered_shipment_def)
  with i have "reached_DELIVERED ''0123456789AB'' st_created ?cs" by (simp only: tn) simp
  with a s show "\<exists>s. findUnique (run st_created ?cs) ''0123456789AB'' = Some s \<and>
        actualDelivery s = Some 2500 \<and> reached_DELIVERED ''0123456789AB'' st_created ?cs"
    by (simp only: tn) blast
qed

section \<open>Lead conversion\<close>

lemma lead_examples [simp]:
  "lead_findUnique st_lead 1 = Some new_lead"
  "lead_status new_lead = Lead_new"
  "lead_findUnique st_converted 1 = Some (new_lead\<lparr>lead_status := Lead_converted\<rparr>)"
  by (simp_all add: lead_findUnique_def st_lead_def new_lead_def st_converted_def)

lemma convertToShipment_converted:
  "lead_findUnique st leadId = Some lead \<Longrightarrow> lead_status lead = Lead_converted \<Longrightarrow>
   convertToShipment st leadId d now = (Inl InvalidTransition, st)"
  by (simp add: convertToShipment_def convertToShipment_check_def)

lemma convertToShipment_never_returns:
  "fst (convertToShipment st leadId d now) \<noteq> Inr s"
  by (simp add: convertToShipment_eq split: option.splits)

text \<open>
  Claim C1 does not hold of the code. \<open>convertToShipment\<close> does not go through
  \<open>createShipment\<close> and allocates no tracking number: it passes
  \<open>{ ...shipmentData, userId }\<close> to \<open>shipment.create\<close>, which rejects a row without
  the required \<open>trackingNumber\<close>. For the unconverted lead 1 below, no shipment is
  created and none is returned. (A call with the declared \<open>bigint\<close> identifier is
  refused earlier, in \<open>lead.findUnique\<close>, and creates nothing either.)
\<close>

theorem convertToShipment_allocates_no_tracking_number:
  "convertToShipment st_lead 1 dhl_data 5000
     = (Inl (ValidationError ''Argument trackingNumber is missing''), st_lead)"
  by (simp add: convertToShipment_eq)

text \<open>
  Claim C2 does not hold of the code. A lead that is already converted is refused with
  \<open>InvalidTransition\<close> and the database is unchanged (\<open>convertToShipment_converted\<close>);
  but the first conversion of an unconverted lead fails in \<open>shipment.create\<close> and rolls
  back, so the lead stays unconverted and the second call fails in the same way, not
  with \<open>InvalidTransition\<close>. (With the declared \<open>bigint\<close> identifier both calls, and
  a call on a converted lead too, are refused in \<open>lead.findUnique\<close>: the second call
  does not fail with \<open>InvalidTransition\<close> then either.)
\<close>

theorem second_conversion_not_InvalidTransition:
  "convertToShipment st_lead 1 dhl_data 5000
     = (Inl (ValidationError ''Argument trackingNumber is missing''), st_lead) \<and>
   convertToShipment (snd (convertToShipment st_lead 1 dhl_data 5000)) 1 dhl_data 6000
     = (Inl (ValidationError ''Argument trackingNumber is missing''), st_lead) \<and>
   fst (convertToShipment (snd (convertToShipment st_lead 1 dhl_data 5000)) 1 dhl_data 6000)
     \<noteq> Inl InvalidTransition"
  by (simp add: convertToShipment_eq)

text \<open>
  Claim C9 does not hold of the code. The check of the lead's status is made on the row
  read before the transaction is opened; the transaction's body contains the two writes
  only. Call the check on the first database below: it passes and returns the unconverted
  row. Run the transaction with that row on the second database, in which the lead has
  been converted in the meantime: it is not refused with \<open>InvalidTransition\<close>, as the
  whole operation is on that database, but goes on to \<open>shipment.create\<close>. (No second
  shipment is written, but only because \<open>shipment.create\<close> is rejected, as under C1.)
\<close>

theorem transaction_has_no_status_check:
  "convertToShipment_check st_lead 1 = Inr new_lead \<and>
   convertToShipment st_converted 1 dhl_data 5000 = (Inl InvalidTransition, st_converted) \<and>
   transaction (convertToShipment_tx new_lead 1 dhl_data 5000) st_converted
     = (Inl (ValidationError ''Argument trackingNumber is missing''), st_converted)"
  by (simp add: convertToShipment_eq convertToShipment_check_def transaction_def
      convertToShipment_tx_fails)

section \<open>listShipments\<close>

lemma where_userId_empty: "where_userId (Some '''') = where_userId None"
  by (simp add: where_userId_def)

lemma orderBy_createdAt_desc_props:
  "mset (orderBy_createdAt_desc xs) = mset xs"
  "sorted_wrt (\<lambda>a b. createdAt a \<ge> createdAt b) (orderBy_createdAt_desc xs)"
proof -
  show "mset (orderBy_createdAt_desc xs) = mset xs"
    by (simp add: orderBy_createdAt_desc_def)
  have "sorted (map (\<lambda>s. - createdAt s) (orderBy_createdAt_desc xs))"
    by (simp add: orderBy_createdAt_desc_def)
  then show "sorted_wrt (\<lambda>a b. createdAt a \<ge> createdAt b) (orderBy_createdAt_desc xs)"
    by (simp add: sorted_wrt_map)
qed

lemma ceil_div_pos:
  "0 < l \<Longrightarrow> ceil_div n l = Num \<lceil>real n / real_of_int l\<rceil>"
proof -
  have "\<lceil>real_of_int (int n) / real_of_int l\<rceil> = - (- int n div l)"
    by (rule ceiling_divide_eq_div)
  then show "0 < l \<Longrightarrow> ceil_div n l = Num \<lceil>real n / real_of_int l\<rceil>"
    by (simp add: ceil_div_def)
qed

lemma listShipments_eq:
  assumes "1 \<le> pg" "1 \<le> lm"
    and "pg = (case p_page params of None \<Rightarrow> 1 | Some p \<Rightarrow> p)"
    and "lm = (case p_limit params of None \<Rightarrow> 20 | Some l \<Rightarrow> l)"
  shows "listShipments st params =
     Inr \<lparr>r_shipments =
            map (\<lambda>s. (s, take 1 (orderBy_timestamp_desc (eventsOf st (sid s)))))
              (take (nat lm) (drop (nat ((pg - 1) * lm))
                 (orderBy_createdAt_desc
                    (filter (matches (where_userId (p_userId params)) (p_status params))
                       (shipments st))))),
          pagination =
            \<lparr>total = length (filter (matches (where_userId (p_userId params)) (p_status params))
                       (shipments st)),
             page = pg, limit = lm,
             totalPages = ceil_div (length (filter (matches (where_userId (p_userId params))
                       (p_status params)) (shipments st))) lm\<rparr>\<rparr>"
proof -
  from assms(1,2) have "0 \<le> (pg - 1) * lm" by simp
  then have "\<not> (pg - 1) * lm < 0" by simp
  with assms show ?thesis
    unfolding listShipments_def Let_def skip_take_def
    by (simp split: option.splits)
qed

lemma listShipments_page:
  assumes "pg = (case p_page params of None \<Rightarrow> 1 | Some p \<Rightarrow> p)"
    and "lm = (case p_limit params of None \<Rightarrow> 20 | Some l \<Rightarrow> l)"
    and "1 \<le> pg" and "1 \<le> lm"
    and "matching = filter (matches (where_userId (p_userId params)) (p_status params))
                      (shipments st)"
  shows "\<exists>r ordered. listShipments st params = Inr r
           \<and> mset ordered = mset matching
           \<and> sorted_wrt (\<lambda>a b. createdAt a \<ge> createdAt b) ordered
           \<and> map fst (r_shipments r) = take (nat lm) (drop (nat ((pg - 1) * lm)) ordered)
           \<and> length (r_shipments r) \<le> nat lm
           \<and> total (pagination r) = length matching
           \<and> page (pagination r) = pg \<and> limit (pagination r) = lm
           \<and> totalPages (pagination r) = Num \<lceil>real (length matching) / real_of_int lm\<rceil>
           \<and> (length matching = 12 \<and> pg = 2 \<and> lm = 5 \<longrightarrow>
                length (r_shipments r) = 5 \<and> total (pagination r) = 12
                \<and> totalPages (pagination r) = Num 3)"
proof -
  let ?ordered = "orderBy_createdAt_desc matching"
  let ?rows = "take (nat lm) (drop (nat ((pg - 1) * lm)) ?ordered)"
  let ?r = "\<lparr>r_shipments =
            map (\<lambda>s. (s, take 1 (orderBy_timestamp_desc (eventsOf st (sid s))))) ?rows,
          pagination =
            \<lparr>total = length matching, page = pg, limit = lm,
             totalPages = ceil_div (length matching) lm\<rparr>\<rparr>"
  have r: "listShipments st params = Inr ?r"
    using listShipments_eq [OF assms(3,4,1,2), of st] by (simp add: assms(5))
  have len: "length ?ordered = length matching"
    by (simp add: orderBy_createdAt_desc_def)
  have m: "map fst (r_shipments ?r) = ?rows" by (simp add: comp_def)
  have l: "length (r_shipments ?r) \<le> nat lm" by simp
  have tp: "totalPages (pagination ?r) = Num \<lceil>real (length matching) / real_of_int lm\<rceil>"
    using assms(4) by (simp add: ceil_div_pos)
  have sc: "length (r_shipments ?r) = 5 \<and> total (pagination ?r) = 12
                \<and> totalPages (pagination ?r) = Num 3"
    if "length matching = 12 \<and> pg = 2 \<and> lm = 5"
    using that by (simp add: len ceil_div_def)
  from r m l tp sc orderBy_createdAt_desc_props [of matching] show ?thesis
    by (intro exI [of _ ?r] exI [of _ ?ordered]) simp
qed

text \<open>
  With page 0 the \<open>skip\<close> passed to \<open>findMany\<close> is negative and the query is
  rejected, whatever the database holds.
\<close>

lemma listShipments_page_zero:
  "listShipments st (page_two\<lparr>p_page := Some 0\<rparr>)
     = Inl (ValidationError ''Invalid value for skip argument'')"
  by (simp add: listShipments_def skip_take_def page_two_def)

lemma matches_where_userId:
  "matches (where_userId u) v s =
     ((case u of None \<Rightarrow> True | Some x \<Rightarrow> x = [] \<or> userId s = Some x) \<and>
      (case v of None \<Rightarrow> True | Some y \<Rightarrow> status s = y))"
  by (simp add: matches_def where_userId_def split: option.splits)

lemma mixed_in_transit:
  "filter (\<lambda>s. (case p_userId page_two of None \<Rightarrow> True
                         | Some u \<Rightarrow> u = [] \<or> userId s = Some u) \<and>
                        (case p_status page_two of None \<Rightarrow> True | Some v \<Rightarrow> status s = v))
             (shipments st_mixed) = map mk_in_transit [0..<12]"
  by (simp add: st_mixed_def page_two_def mk_in_transit_def example_shipment_def
      filter_map comp_def)

lemma mixed_user:
  "filter (\<lambda>s. (case p_userId user_params of None \<Rightarrow> True
                         | Some u \<Rightarrow> u = [] \<or> userId s = Some u) \<and>
                        (case p_status user_params of None \<Rightarrow> True | Some v \<Rightarrow> status s = v))
             (shipments st_mixed) =
     [example_shipment\<lparr>sid := 13, trackingNumber := ''DDDDDDDDDDDD'', status := DELIVERED,
                            createdAt := 5000, userId := Some ''user-1''\<rparr>]"
  by (simp add: st_mixed_def user_params_def mk_in_transit_def example_shipment_def
      filter_map comp_def)

text \<open>
  Claim C8, as stated, fails: the route passes on any integer it parses, and for
  \<open>status = IN_TRANSIT\<close>, \<open>page = 0\<close>, \<open>limit = 5\<close> on the database below (12
  shipments in transit and two others) \<open>listShipments\<close> returns no page at all; the
  call fails.
\<close>

theorem listShipments_page_zero_counterexample:
  "listShipments st_mixed (page_two\<lparr>p_page := Some 0\<rparr>)
     = Inl (ValidationError ''Invalid value for skip argument'')"
  by (rule listShipments_page_zero)

text \<open>
  Claim C8, amended. For a page number and a limit that are at least 1 (each as given,
  or the defaults 1 and 20 when omitted), \<open>listShipments\<close> returns the matching
  shipments (those of the given user, unless \<open>userId\<close> is omitted or empty, and of the
  given status, unless omitted) ordered newest first by creation time, skipping
  \<open>(page - 1) * limit\<close> rows and returning at most \<open>limit\<close> rows, with \<open>total\<close> the
  number of matching shipments and \<open>totalPages\<close> the ceiling of \<open>total / limit\<close>; with
  12 matching shipments, page 2 and limit 5 it returns 5 rows, \<open>total = 12\<close> and
  \<open>totalPages = 3\<close>.
\<close>

theorem listShipments_pagination:
  assumes "pg = (case p_page params of None \<Rightarrow> 1 | Some p \<Rightarrow> p)"
    and "lm = (case p_limit params of None \<Rightarrow> 20 | Some l \<Rightarrow> l)"
    and "1 \<le> pg" and "1 \<le> lm"
    and "matching =
           filter (\<lambda>s. (case p_userId params of None \<Rightarrow> True
                         | Some u \<Rightarrow> u = [] \<or> userId s = Some u) \<and>
                        (case p_status params of None \<Rightarrow> True | Some v \<Rightarrow> status s = v))
             (shipments st)"
  shows "\<exists>r ordered. listShipments st params = Inr r
           \<and> mset ordered = mset matching
           \<and> sorted_wrt (\<lambda>a b. createdAt a \<ge> createdAt b) ordered
           \<and> map fst (r_shipments r) = take (nat lm) (drop (nat ((pg - 1) * lm)) ordered)
           \<and> length (r_shipments r) \<le> nat lm
           \<and> total (pagination r) = length matching
           \<and> page (pagination r) = pg \<and> limit (pagination r) = lm
           \<and> totalPages (pagination r) = Num \<lceil>real (length matching) / real_of_int lm\<rceil>
           \<and> (length matching = 12 \<and> pg = 2 \<and> lm = 5 \<longrightarrow>
                length (r_shipments r) = 5 \<and> total (pagination r) = 12
                \<and> totalPages (pagination r) = Num 3)"
proof -
  have "matching = filter (matches (where_userId (p_userId params)) (p_status params))
                      (shipments st)"
    unfolding assms(5) by (rule filter_cong) (simp_all add: matches_where_userId)
  from listShipments_page [OF assms(1-4) this] show ?thesis .
qed

theorem listShipments_pagination_witness:
  "(\<exists>r. listShipments st_mixed page_two = Inr r \<and> length (r_shipments r) = 5 \<and>
       total (pagination r) = 12 \<and> totalPages (pagination r) = Num 3) \<and>
   (\<exists>r. listShipments st_mixed user_params = Inr r \<and> length (r_shipments r) = 1 \<and>
       total (pagination r) = 1 \<and> page (pagination r) = 1 \<and> limit (pagination r) = 20 \<and>
       totalPages (pagination r) = Num 1)"
proof
  have "(2::int) = (case p_page page_two of None \<Rightarrow> 1 | Some p \<Rightarrow> p)"
    "(5::int) = (case p_limit page_two of None \<Rightarrow> 20 | Some l \<Rightarrow> l)"
    "(1::int) \<le> 2" "(1::int) \<le> 5"
    by (simp_all add: page_two_def)
  from listShipments_pagination [OF this mixed_in_transit [symmetric]]
  show "\<exists>r. listShipments st_mixed page_two = Inr r \<and> length (r_shipments r) = 5 \<and>
       total (pagination r) = 12 \<and> totalPages (pagination r) = Num 3" by auto
next
  have "(1::int) = (case p_page user_params of None \<Rightarrow> 1 | Some p \<Rightarrow> p)"
    "(20::int) = (case p_limit user_params of None \<Rightarrow> 20 | Some l \<Rightarrow> l)"
    "(1::int) \<le> 1" "(1::int) \<le> 20"
    by (simp_all add: user_params_def)
  from listShipments_pagination [OF this mixed_user [symmetric]]
  obtain r ordered where r: "listShipments st_mixed user_params = Inr r"
    and o: "mset ordered = mset [example_shipment\<lparr>sid := 13, trackingNumber := ''DDDDDDDDDDDD'',
                 status := DELIVERED, createdAt := 5000, userId := Some ''user-1''\<rparr>]"
    and m: "map fst (r_shipments r) = take (nat 20) (drop (nat ((1 - 1) * 20)) ordered)"
    and p: "total (pagination r) = 1" "page (pagination r) = 1" "limit (pagination r) = 20"
      "totalPages (pagination r) = Num \<lceil>real (1::nat) / real_of_int 20\<rceil>"
    by auto
  from mset_eq_length [OF o] have "length ordered = 1" by simp
  with arg_cong [OF m, of length] have "length (r_shipments r) = 1" by simp
  moreover have "\<lceil>real (1::nat) / real_of_int 20\<rceil> = 1"
    by (rule ceiling_unique) simp_all
  ultimately show "\<exists>r. listShipments st_mixed user_params = Inr r \<and> length (r_shipments r) = 1 \<and>
       total (pagination r) = 1 \<and> page (pagination r) = 1 \<and> limit (pagination r) = 20 \<and>
       totalPages (pagination r) = Num 1"
    using r p by auto
qed

text \<open>
  Claim C10. With \<open>userId\<close> the empty string, \<open>listShipments\<close> returns exactly what it
  returns with \<open>userId\<close> omitted, for every database and every status, page and limit:
  the empty string is no filter.
\<close>

theorem empty_userId_is_no_filter:
  "listShipments st (params\<lparr>p_userId := Some ''''\<rparr>) = listShipments st (params\<lparr>p_userId := None\<rparr>)"
  by (simp add: listShipments_def where_userId_empty)

theorem empty_userId_is_no_filter_witness:
  "listShipments st_twelve (page_two\<lparr>p_userId := Some ''''\<rparr>) = listShipments st_twelve page_two"
  using empty_userId_is_no_filter [of st_twelve page_two] by (simp add: page_two_def)

end
